theory Spec2Isabelle
  imports Complex_Main
begin

section \<open>Strings\<close>

text \<open>
  A JavaScript string is modelled as a \<^typ>\<open>string\<close>: one \<^typ>\<open>char\<close> stands for one
  UTF-16 code unit, so the model covers the strings whose code units are below 256.
  \<open>text.length\<close> is \<^term>\<open>length text\<close>.
\<close>

definition is_word :: "char \<Rightarrow> bool" where
  \<comment> \<open>the regular expression class \<open>\w\<close>, that is \<open>[A-Za-z0-9_]\<close>\<close>
  "is_word c =
     (let n = (of_char c :: nat)
      in (65 \<le> n \<and> n \<le> 90) \<or> (97 \<le> n \<and> n \<le> 122) \<or> (48 \<le> n \<and> n \<le> 57) \<or> n = 95)"

definition is_digit :: "char \<Rightarrow> bool" where
  "is_digit c = (let n = (of_char c :: nat) in 48 \<le> n \<and> n \<le> 57)"

definition is_ws :: "char \<Rightarrow> bool" where
  \<comment> \<open>white space and line terminators below 256: TAB, LF, VT, FF, CR, SP, NBSP\<close>
  "is_ws c = (let n = (of_char c :: nat) in (9 \<le> n \<and> n \<le> 13) \<or> n = 32 \<or> n = 160)"

definition trim :: "string \<Rightarrow> string" where
  \<comment> \<open>\<open>String.prototype.trim\<close>\<close>
  "trim s = rev (dropWhile is_ws (rev (dropWhile is_ws s)))"

definition digit_char :: "nat \<Rightarrow> char" where
  "digit_char d = char_of (48 + d)"

fun string_of_nat :: "nat \<Rightarrow> string" where
  \<comment> \<open>the decimal digits of a number, as a template literal \<open>`${n}`\<close> prints it\<close>
  "string_of_nat n =
     (if n < 10 then [digit_char n] else string_of_nat (n div 10) @ [digit_char (n mod 10)])"

declare string_of_nat.simps [simp del]

section \<open>Escaping and formatting of message content\<close>

text \<open>
  \<open>escapeHtml\<close> assigns the text to a fresh element's \<open>textContent\<close> and reads its
  \<open>innerHTML\<close> back: the browser serialises the text node, replacing \<open>&\<close>, \<open><\<close>,
  \<open>>\<close> and the no-break space by their entities.
\<close>

definition escapeChar :: "char \<Rightarrow> string" where
  "escapeChar c =
     (if c = CHR ''&'' then ''&amp;''
      else if c = CHR ''<'' then ''&lt;''
      else if c = CHR ''>'' then ''&gt;''
      else if c = CHR 0xA0 then ''&nbsp;''
      else [c])"

definition escapeHtml :: "string \<Rightarrow> string" where
  "escapeHtml text = concat (map escapeChar text)"

text \<open>
  The first occurrence of the fence \<open>```\<close>: the text before it and the text after it.
  This is what the lazy group \<open>([\s\S]*?)\<close> followed by \<open>```\<close> matches.
\<close>

fun split_fence :: "string \<Rightarrow> (string \<times> string) option" where
  "split_fence [] = None"
| "split_fence (c # cs) =
     (if take 3 (c # cs) = ''```'' then Some ([], drop 3 (c # cs))
      else map_option (\<lambda>(a, b). (c # a, b)) (split_fence cs))"

text \<open>
  A match of \<open>/```(\w+)?\n([\s\S]*?)```/\<close> at the start of the string: the language
  (empty when the group did not take part), the code and the text after the match.
  The greedy \<open>\w+\<close> takes the longest run of word characters; a shorter run would be
  followed by a word character, never by the line feed the pattern needs next.
\<close>

definition match_code_block :: "string \<Rightarrow> (string \<times> string \<times> string) option" where
  "match_code_block s =
     (if take 3 s = ''```'' then
        (let after = drop 3 s;
             lang = takeWhile is_word after
         in case dropWhile is_word after of
              [] \<Rightarrow> None
            | c # body \<Rightarrow>
                if c = CHR ''\<newline>'' then
                  (case split_fence body of
                     None \<Rightarrow> None
                   | Some (code, rest) \<Rightarrow> Some (lang, code, rest))
                else None)
      else None)"

lemma split_fence_length:
  "split_fence s = Some (a, b) \<Longrightarrow> length b < length s"
  by (induction s arbitrary: a) (auto split: if_splits)

lemma match_code_block_length:
  "match_code_block s = Some (lang, code, rest) \<Longrightarrow> length rest < length s"
proof -
  assume m: "match_code_block s = Some (lang, code, rest)"
  then obtain c body where d: "dropWhile is_word (drop 3 s) = c # body"
    and f: "split_fence body = Some (code, rest)"
    by (auto simp: match_code_block_def Let_def split: if_splits list.splits option.splits)
  have "length rest < length body" using f by (rule split_fence_length)
  moreover have "length (dropWhile is_word (drop 3 s)) \<le> length (drop 3 s)"
    by (rule length_dropWhile_le)
  ultimately show ?thesis using d by simp
qed

text \<open>
  \<open>formatted.replace(/```(\w+)?\n([\s\S]*?)```/g, ...)\<close>: the matches are taken from
  left to right; where no match starts, the character is copied and the search moves on
  by one.
\<close>

function replaceCodeBlocks :: "string \<Rightarrow> string" where
  "replaceCodeBlocks [] = []"
| \<open>replaceCodeBlocks (c # cs) =
     (case match_code_block (c # cs) of
        Some (lang, code, rest) \<Rightarrow>
          ''<pre><code class="language-'' @ (if lang = [] then ''text'' else lang) @ ''">''
            @ trim code @ ''</code></pre>'' @ replaceCodeBlocks rest
      | None \<Rightarrow> c # replaceCodeBlocks cs)\<close>
  by pat_completeness auto
termination
  by (relation "measure length") (auto dest: match_code_block_length)

text \<open>
  The three patterns \<open>/`([^`]+)`/g\<close>, \<open>/\*\*([^*]+)\*\*/g\<close> and \<open>/\*([^*]+)\*/g\<close>
  have one shape: \<open>n\<close> copies of a delimiter, the longest non-empty run of other
  characters, and \<open>n\<close> copies of the delimiter again. The replacement puts the run
  between an opening and a closing tag.
\<close>

function replaceDelimited :: "char \<Rightarrow> nat \<Rightarrow> string \<Rightarrow> string \<Rightarrow> string \<Rightarrow> string" where
  "replaceDelimited ch n opn cls [] = []"
| "replaceDelimited ch n opn cls (c # cs) =
     (let inner = takeWhile (\<lambda>x. x \<noteq> ch) (drop n (c # cs));
          rest = dropWhile (\<lambda>x. x \<noteq> ch) (drop n (c # cs))
      in if take n (c # cs) = replicate n ch \<and> inner \<noteq> [] \<and> take n rest = replicate n ch
         then opn @ inner @ cls @ replaceDelimited ch n opn cls (drop n rest)
         else c # replaceDelimited ch n opn cls cs)"
  by pat_completeness auto
termination
proof (relation "measure (\<lambda>(ch, n, opn, cls, s). length s)")
  show "wf (measure (\<lambda>(ch, n, opn, cls, s). length s))" by simp
next
  fix ch :: char and n :: nat and opn cls :: string and c :: char and cs inner rest :: string
  assume r: "rest = dropWhile (\<lambda>x. x \<noteq> ch) (drop n (c # cs))"
    and i: "inner = takeWhile (\<lambda>x. x \<noteq> ch) (drop n (c # cs))"
    and m: "take n (c # cs) = replicate n ch \<and> inner \<noteq> [] \<and> take n rest = replicate n ch"
  have "length inner + length rest = length (drop n (c # cs))"
    unfolding r i by (metis length_append takeWhile_dropWhile_id)
  moreover have "0 < length inner" using m by simp
  moreover have "length (drop n (c # cs)) \<le> length (c # cs)" by simp
  moreover have "length (drop n rest) \<le> length rest" by simp
  ultimately have "length (drop n rest) < length (c # cs)" by linarith
  then show "((ch, n, opn, cls, drop n rest), (ch, n, opn, cls, c # cs))
      \<in> measure (\<lambda>(ch, n, opn, cls, s). length s)"
    by simp
next
  fix ch :: char and n :: nat and opn cls :: string and c :: char and cs :: string
  show "((ch, n, opn, cls, cs), (ch, n, opn, cls, c # cs))
      \<in> measure (\<lambda>(ch, n, opn, cls, s). length s)"
    by simp
qed

definition replaceLineBreaks :: "string \<Rightarrow> string" where
  \<comment> \<open>\<open>formatted.replace(/\n/g, '<br>')\<close>\<close>
  "replaceLineBreaks s = concat (map (\<lambda>c. if c = CHR ''\<newline>'' then ''<br>'' else [c]) s)"

definition formatMessageContent :: "string \<Rightarrow> string" where
  "formatMessageContent content =
     (let formatted = escapeHtml content;
          formatted = replaceCodeBlocks formatted;
          formatted = replaceDelimited (CHR ''`'') 1 ''<code>'' ''</code>'' formatted;
          formatted = replaceDelimited (CHR ''*'') 2 ''<strong>'' ''</strong>'' formatted;
          formatted = replaceDelimited (CHR ''*'') 1 ''<em>'' ''</em>'' formatted;
          formatted = replaceLineBreaks formatted
      in formatted)"

section \<open>What the formatter may emit\<close>








section \<open>Numbers\<close>

text \<open>
  A JavaScript number that comes from a decimal literal is kept as that literal:
  \<open>Dec m e\<close> stands for the binary64 value nearest to \<open>m * 10 ^ e\<close>. The program only
  stores such numbers, hands them on and tests them for truthiness.
\<close>

datatype jsnum = NaN | Infinity bool | Dec int int

definition num_truthy :: "jsnum \<Rightarrow> bool" where
  \<comment> \<open>a number is falsy when it is NaN or a zero; a literal of at most \<open>2 ^ -1075\<close>
      in magnitude rounds to zero\<close>
  "num_truthy x =
     (case x of
        NaN \<Rightarrow> False
      | Infinity _ \<Rightarrow> True
      | Dec m e \<Rightarrow> m \<noteq> 0 \<and> \<not> (e < 0 \<and> \<bar>m\<bar> * 2 ^ 1075 \<le> 10 ^ nat (- e)))"

section \<open>Data model\<close>

record reasoning_obj =
  short :: string
  full :: string

record message =
  role :: string
  content :: string
  reasoning :: "reasoning_obj option"
  imageUrl :: "string option"
  timestamp :: nat

text \<open>The children of the messages container.\<close>

datatype dom_node =
    MessageEl (el_role: string) (el_image: "string option") (el_bubble: string)
      (el_reasoning: "string option") (el_fullReasoning: "string option") (el_time: string)
  | TypingIndicator
  | WelcomeMessage

record config =
  apiEndpoint :: string
  model :: string
  temperature :: jsnum
  voiceOutput :: bool
  theme :: string

text \<open>The requests the page sends with \<open>fetch\<close>, and the files it starts to read.\<close>

datatype request =
    ChatRequest (req_url: string) (req_message: string) (req_session_id: string)
      (req_model: string) (req_temperature: jsnum) (req_image_data: "string option")
      (req_image_type: "string option")
  | SessionsRequest string
  | SessionRequest string

record upload_file =
  file_type :: string
  file_size :: nat

text \<open>
  What the browser provides and the program does not compute: the formatting of times
  and numbers for the locale, and whether speech synthesis exists.
\<close>

record browser =
  formatTime :: "nat \<Rightarrow> string"
  toLocaleString :: "nat \<Rightarrow> string"
  dateToLocaleString :: "nat \<Rightarrow> string"
  speechSynthesis :: bool

text \<open>
  The state of the page: the fields of \<open>STATE\<close> (the recorder fields apart), \<open>CONFIG\<close>,
  local storage, the parts of the document the functions below write (focus and layout
  apart), and the effects they have on the outside: toasts shown, requests sent, texts
  spoken, file reads started, files offered for download (type, name and text), and a
  reload of the page scheduled. An element the document may lack is an option: \<open>None\<close>
  is \<open>null\<close>, and otherwise the option holds what the program writes to the element
  (the \<open>display\<close> style of the welcome message, the text of a counter).
\<close>

record state =
  sessionId :: string
  currentImage :: "string option"
  imageType :: "string option"
  isProcessing :: bool
  messages :: "message list"
  CONFIG :: config
  localStorage :: "string \<rightharpoonup> string"
  messagesContainer :: "dom_node list"
  welcomeMessage :: "string option"
  sendBtnDisabled :: bool
  messageInput :: string
  imagePreviewDisplay :: string
  previewImgSrc :: string
  imageInputValue :: string
  historyItems :: "(string \<times> bool) list"
  sessionMsgCount :: "string option"
  totalTokens :: "string option"
  toasts :: "(string \<times> string) list"
  fetches :: "request list"
  spoken :: "string list"
  fileReads :: "upload_file list"
  downloads :: "(string \<times> string \<times> string) list"
  reloadScheduled :: bool

section \<open>Messages\<close>

definition showToast :: "string \<Rightarrow> string \<Rightarrow> state \<Rightarrow> state" where
  "showToast msg type s = s\<lparr>toasts := toasts s @ [(msg, type)]\<rparr>"

definition speakText :: "browser \<Rightarrow> string \<Rightarrow> state \<Rightarrow> state" where
  "speakText B text s = (if \<not> speechSynthesis B then s else s\<lparr>spoken := spoken s @ [text]\<rparr>)"

definition createMessageElement ::
  "browser \<Rightarrow> nat \<Rightarrow> string \<Rightarrow> string \<Rightarrow> reasoning_obj option \<Rightarrow> string option \<Rightarrow> dom_node" where
  "createMessageElement B now r c rs img =
     MessageEl r
       (case img of None \<Rightarrow> None | Some u \<Rightarrow> if u = [] then None else Some u)
       (formatMessageContent c)
       (case rs of None \<Rightarrow> None | Some x \<Rightarrow> if r = ''bot'' then Some (escapeHtml (short x)) else None)
       (case rs of None \<Rightarrow> None | Some x \<Rightarrow> if r = ''bot'' then Some (full x) else None)
       (formatTime B now)"

definition originalAddMessage ::
  "browser \<Rightarrow> nat \<Rightarrow> string \<Rightarrow> string \<Rightarrow> reasoning_obj option \<Rightarrow> string option \<Rightarrow> state \<Rightarrow> state" where
  \<comment> \<open>the function \<open>addMessage\<close> as declared; the element it returns is used by no caller\<close>
  "originalAddMessage B now r c rs img s =
     (let s = (case welcomeMessage s of None \<Rightarrow> s | Some _ \<Rightarrow> s\<lparr>welcomeMessage := Some ''none''\<rparr>);
          messageElement = createMessageElement B now r c rs img;
          s = s\<lparr>messagesContainer := messagesContainer s @ [messageElement]\<rparr>;
          s = s\<lparr>messages := messages s
                @ [\<lparr>role = r, content = c, reasoning = rs, imageUrl = img, timestamp = now\<rparr>]\<rparr>
      in if r = ''bot'' \<and> voiceOutput (CONFIG s) then speakText B c s else s)"

definition estimateTokens :: "string \<Rightarrow> nat" where
  "estimateTokens text = nat \<lceil>real (length text) / 4\<rceil>"

definition updateSessionStats :: "browser \<Rightarrow> state \<Rightarrow> state" where
  "updateSessionStats B s =
     (let s = (case sessionMsgCount s of
                 None \<Rightarrow> s
               | Some _ \<Rightarrow> s\<lparr>sessionMsgCount :=
                            Some (string_of_nat (length (messages s)) @ '' messages'')\<rparr>)
      in case totalTokens s of
           None \<Rightarrow> s
         | Some _ \<Rightarrow>
             (let tokens = foldl (\<lambda>tokens msg. tokens + estimateTokens (content msg)) 0 (messages s)
              in s\<lparr>totalTokens := Some (toLocaleString B tokens)\<rparr>))"

definition addMessage ::
  "browser \<Rightarrow> nat \<Rightarrow> string \<Rightarrow> string \<Rightarrow> reasoning_obj option \<Rightarrow> string option \<Rightarrow> state \<Rightarrow> state" where
  \<comment> \<open>\<open>addMessage\<close> as the script rebinds it at its end: every caller runs after that\<close>
  "addMessage B now r c rs img s = updateSessionStats B (originalAddMessage B now r c rs img s)"

definition showTypingIndicator :: "state \<Rightarrow> state" where
  "showTypingIndicator s = s\<lparr>messagesContainer := messagesContainer s @ [TypingIndicator]\<rparr>"

definition removeTypingIndicator :: "state \<Rightarrow> state" where
  \<comment> \<open>\<open>getElementById\<close> finds the first element with the id\<close>
  "removeTypingIndicator s = s\<lparr>messagesContainer := remove1 TypingIndicator (messagesContainer s)\<rparr>"

definition clearImagePreview :: "state \<Rightarrow> state" where
  "clearImagePreview s =
     s\<lparr>currentImage := None, imageType := None, imagePreviewDisplay := ''none'',
       previewImgSrc := [], imageInputValue := []\<rparr>"

section \<open>Sending a message\<close>

text \<open>
  \<open>sendMessage\<close> is an \<open>async\<close> function. It runs up to its first \<open>await\<close>, the
  \<open>fetch\<close>, in one step: that is \<open>sendMessage\<close> below. It resumes when the request
  has an outcome: that is \<open>sendMessage_resume\<close>, with the \<open>try\<close>, \<open>catch\<close> and
  \<open>finally\<close> blocks as the source has them. An exception is \<open>Inl\<close> of its message.
\<close>

datatype 'a body = BodyError string | Body 'a

record chat_data =
  final_answer :: string
  short_reasoning :: string
  full_reasoning :: string
  session_id :: "string option"

datatype chat_outcome =
    FetchError string
  | HttpError "string option body"
  | HttpOk "chat_data body"

definition template :: "string option \<Rightarrow> string" where
  \<comment> \<open>a value in a template literal: \<open>null\<close> prints as \<open>null\<close>\<close>
  "template v = (case v of None \<Rightarrow> ''null'' | Some x \<Rightarrow> x)"

definition userImageUrl :: "string option \<Rightarrow> string option \<Rightarrow> string option" where
  \<comment> \<open>the local \<open>imageUrl\<close> of \<open>sendMessage\<close>: the data URL of the attached image, if any\<close>
  "userImageUrl img ty =
     (case img of
        None \<Rightarrow> None
      | Some d \<Rightarrow> if d = [] then None else Some (''data:'' @ template ty @ '';base64,'' @ d))"

definition sendMessage ::
  "browser \<Rightarrow> nat \<Rightarrow> string \<Rightarrow> string option \<Rightarrow> string option \<Rightarrow> state \<Rightarrow> state" where
  "sendMessage B now msg imageData imageType' s =
     (if isProcessing s then s
      else
        (let s = s\<lparr>isProcessing := True, sendBtnDisabled := True\<rparr>;
             imageUrl' = userImageUrl imageData imageType';
             s = addMessage B now ''user'' msg None imageUrl' s;
             s = s\<lparr>messageInput := []\<rparr>;
             s = clearImagePreview s;
             s = showTypingIndicator s
         in s\<lparr>fetches := fetches s
               @ [ChatRequest (apiEndpoint (CONFIG s) @ ''/chat'') msg (sessionId s)
                    (model (CONFIG s)) (temperature (CONFIG s)) imageData imageType']\<rparr>))"

definition loadChatHistory :: "state \<Rightarrow> state" where
  \<comment> \<open>the request only; its answer redraws the sidebar\<close>
  "loadChatHistory s =
     s\<lparr>fetches := fetches s @ [SessionsRequest (apiEndpoint (CONFIG s) @ ''/sessions?limit=20'')]\<rparr>"

definition sendMessage_try :: "browser \<Rightarrow> nat \<Rightarrow> chat_outcome \<Rightarrow> state \<Rightarrow> string + state" where
  "sendMessage_try B now outcome s =
     (case outcome of
        FetchError m \<Rightarrow> Inl m
      | HttpError (BodyError m) \<Rightarrow> Inl m
      | HttpError (Body detail) \<Rightarrow>
          Inl (case detail of
                 None \<Rightarrow> ''Failed to get response''
               | Some d \<Rightarrow> if d = [] then ''Failed to get response'' else d)
      | HttpOk (BodyError m) \<Rightarrow> Inl m
      | HttpOk (Body data) \<Rightarrow>
          (let s = removeTypingIndicator s;
               s = addMessage B now ''bot'' (final_answer data)
                     (Some \<lparr>short = short_reasoning data, full = full_reasoning data\<rparr>) None s;
               s = (case session_id data of
                      None \<Rightarrow> s
                    | Some i \<Rightarrow> if i = [] then s
                                else s\<lparr>sessionId := i, localStorage := (localStorage s)(''sessionId'' \<mapsto> i)\<rparr>)
           in Inr (loadChatHistory s)))"

definition sendMessage_catch :: "browser \<Rightarrow> nat \<Rightarrow> string \<Rightarrow> state \<Rightarrow> state" where
  "sendMessage_catch B now m s =
     (let s = removeTypingIndicator s;
          s = addMessage B now ''bot''
                (''Sorry, I encountered an error: '' @ m
                   @ ''. Please check if the backend server is running.'') None None s
      in showToast m ''error'' s)"

definition sendMessage_finally :: "state \<Rightarrow> state" where
  "sendMessage_finally s = s\<lparr>isProcessing := False, sendBtnDisabled := False\<rparr>"

definition sendMessage_resume :: "browser \<Rightarrow> nat \<Rightarrow> chat_outcome \<Rightarrow> state \<Rightarrow> state" where
  "sendMessage_resume B now outcome s =
     sendMessage_finally
       (case sendMessage_try B now outcome s of
          Inl m \<Rightarrow> sendMessage_catch B now m s
        | Inr s' \<Rightarrow> s')"

section \<open>Image upload\<close>

definition validTypes :: "string list" where
  "validTypes = [''image/jpeg'', ''image/png'', ''image/gif'', ''image/webp'']"

definition handleImageUpload :: "upload_file option \<Rightarrow> state \<Rightarrow> state" where
  \<comment> \<open>up to \<open>reader.readAsDataURL(file)\<close>: an accepted file is handed to the reader\<close>
  "handleImageUpload f s =
     (case f of
        None \<Rightarrow> s
      | Some file \<Rightarrow>
          if file_type file \<notin> set validTypes
          then showToast ''Please upload a valid image (JPEG, PNG, GIF, WebP)'' ''error'' s
          else if file_size file > 10 * 1024 * 1024
          then showToast ''Image too large. Maximum size is 10MB'' ''error'' s
          else s\<lparr>fileReads := fileReads s @ [file]\<rparr>)"

fun split_on :: "char \<Rightarrow> string \<Rightarrow> string list" where
  \<comment> \<open>\<open>String.prototype.split\<close> with a separator of one character\<close>
  "split_on sep [] = [[]]"
| "split_on sep (c # cs) =
     (if c = sep then [] # split_on sep cs
      else (case split_on sep cs of
              [] \<Rightarrow> [[c]]
            | x # xs \<Rightarrow> (c # x) # xs))"

definition handleImageUpload_onload :: "upload_file \<Rightarrow> string \<Rightarrow> state \<Rightarrow> state" where
  \<comment> \<open>\<open>reader.onload\<close>, with the data URL the reader produced; a missing second part
      of the split is \<open>undefined\<close>, here \<open>None\<close>\<close>
  "handleImageUpload_onload file result s =
     (let parts = split_on (CHR '','') result;
          base64 = (if 1 < length parts then Some (parts ! 1) else None)
      in s\<lparr>currentImage := base64, imageType := Some (file_type file),
            previewImgSrc := result, imagePreviewDisplay := ''block''\<rparr>)"

section \<open>Export\<close>

definition exportChat_line :: "browser \<Rightarrow> string \<Rightarrow> message \<Rightarrow> string" where
  \<comment> \<open>the body of the \<open>forEach\<close> callback of \<open>exportChat\<close>, on the text so far\<close>
  "exportChat_line B content' msg =
     (let time = formatTime B (timestamp msg);
          role' = (if role msg = ''user'' then ''You'' else ''AI'');
          content' = content' @ ''['' @ time @ ''] '' @ role' @ '':\<newline>'' @ content msg @ ''\<newline>'';
          content' = (case reasoning msg of
                        None \<Rightarrow> content'
                      | Some r \<Rightarrow> content' @ ''\<newline>Reasoning: '' @ short r @ ''\<newline>'')
      in content' @ ''\<newline>'' @ replicate 30 (CHR ''-'') @ ''\<newline>\<newline>'')"

definition exportChat_content :: "browser \<Rightarrow> nat \<Rightarrow> message list \<Rightarrow> string" where
  "exportChat_content B now msgs =
     (let content' = ''Nao AI - Chat Export\<newline>'';
          content' = content' @ ''Generated: '' @ dateToLocaleString B now @ ''\<newline>'';
          content' = content' @ replicate 50 (CHR ''='') @ ''\<newline>\<newline>''
      in foldl (exportChat_line B) content' msgs)"

definition exportChat :: "browser \<Rightarrow> nat \<Rightarrow> state \<Rightarrow> state" where
  "exportChat B now s =
     (if length (messages s) = 0 then showToast ''No messages to export'' ''error'' s
      else
        (let content' = exportChat_content B now (messages s);
             s = s\<lparr>downloads := downloads s
                   @ [(''text/plain'', ''chat-export-'' @ string_of_nat now @ ''.txt'', content')]\<rparr>
         in showToast ''Chat exported successfully!'' ''success'' s))"

definition exportTxt_click :: "browser \<Rightarrow> nat \<Rightarrow> state \<Rightarrow> state" where
  "exportTxt_click B now s = showToast ''Exported as TXT!'' ''success'' (exportChat B now s)"

definition exportMd_line :: "string \<Rightarrow> message \<Rightarrow> string" where
  "exportMd_line content' msg =
     (let role' = (if role msg = ''user'' then ''**You**'' else ''**AI**'')
      in content' @ role' @ '':\<newline>\<newline>'' @ content msg @ ''\<newline>\<newline>---\<newline>\<newline>'')"

definition exportMd_content :: "browser \<Rightarrow> nat \<Rightarrow> message list \<Rightarrow> string" where
  "exportMd_content B now msgs =
     (let content' = ''# AI Chatbot Export\<newline>\<newline>**Date:** '' @ dateToLocaleString B now
                       @ ''\<newline>\<newline>---\<newline>\<newline>''
      in foldl exportMd_line content' msgs)"

definition exportMd_click :: "browser \<Rightarrow> nat \<Rightarrow> state \<Rightarrow> state" where
  "exportMd_click B now s =
     (let content' = exportMd_content B now (messages s);
          s = s\<lparr>downloads := downloads s
                @ [(''text/markdown'', ''chat-export-'' @ string_of_nat now @ ''.md'', content')]\<rparr>
      in showToast ''Exported as Markdown!'' ''success'' s)"

text \<open>
  What the specification asks of an export: after a header, every message once, in the
  order of the log, each as a label, the message's content and a tail.
\<close>

definition every_message_once ::
  "(message \<Rightarrow> string) \<Rightarrow> (message \<Rightarrow> string) \<Rightarrow> message list \<Rightarrow> string" where
  "every_message_once label tail msgs = concat (map (\<lambda>m. label m @ content m @ tail m) msgs)"

section \<open>New chat\<close>

definition generateSessionId :: "string \<Rightarrow> string" where
  \<comment> \<open>the argument is the text of \<open>Math.random().toString(36)\<close>, which the browser draws\<close>
  "generateSessionId r = ''session_'' @ take (15 - 2) (drop 2 r)"

definition startNewChat :: "string \<Rightarrow> state \<Rightarrow> state" where
  "startNewChat r s =
     (let s = s\<lparr>sessionId := generateSessionId r\<rparr>;
          s = s\<lparr>messages := []\<rparr>;
          s = s\<lparr>localStorage := (localStorage s)(''sessionId'' \<mapsto> sessionId s)\<rparr>;
          s = s\<lparr>messagesContainer := []\<rparr>;
          s = (case welcomeMessage s of
                 None \<Rightarrow> s
               | Some _ \<Rightarrow> s\<lparr>welcomeMessage := Some ''flex'',
                              messagesContainer := messagesContainer s @ [WelcomeMessage]\<rparr>)
      in showToast ''Started new chat'' ''success'' s)"

section \<open>Loading a session\<close>

text \<open>
  \<open>loadSession\<close> sends its request and resumes with the outcome. The response's status
  is not read. Reading the body fails (\<open>BodyError\<close>) when it is not JSON or is \<open>null\<close>;
  otherwise the body has a \<open>messages\<close> array or has none (\<open>None\<close>: absent or falsy).
\<close>

record server_message =
  msg_role :: string
  msg_content :: string
  msg_reasoning :: "reasoning_obj option"

datatype session_outcome =
    SessionFetchError
  | SessionResponse bool "server_message list option body"

definition loadSession :: "string \<Rightarrow> state \<Rightarrow> state" where
  "loadSession sessionId' s =
     s\<lparr>fetches := fetches s @ [SessionRequest (apiEndpoint (CONFIG s) @ ''/sessions/'' @ sessionId')]\<rparr>"

definition loadSession_try ::
  "browser \<Rightarrow> nat \<Rightarrow> string \<Rightarrow> session_outcome \<Rightarrow> state \<Rightarrow> state \<times> bool" where
  \<comment> \<open>the \<open>try\<close> block: the state it leaves, and whether it threw\<close>
  "loadSession_try B now sessionId' outcome s =
     (case outcome of
        SessionFetchError \<Rightarrow> (s, True)
      | SessionResponse ok (BodyError m) \<Rightarrow> (s, True)
      | SessionResponse ok (Body None) \<Rightarrow> (s, False)
      | SessionResponse ok (Body (Some msgs)) \<Rightarrow>
          (let s = s\<lparr>sessionId := sessionId'\<rparr>;
               s = s\<lparr>localStorage := (localStorage s)(''sessionId'' \<mapsto> sessionId')\<rparr>;
               s = s\<lparr>messages := []\<rparr>;
               s = s\<lparr>messagesContainer := []\<rparr>
           in case welcomeMessage s of
                None \<Rightarrow> (s, True)
              | Some _ \<Rightarrow>
                  (let s = s\<lparr>welcomeMessage := Some ''none''\<rparr>;
                       s = foldl (\<lambda>s msg. addMessage B now (msg_role msg) (msg_content msg)
                                     (msg_reasoning msg) None s) s msgs;
                       s = s\<lparr>historyItems := map (\<lambda>(i, a). (i, i = sessionId')) (historyItems s)\<rparr>
                   in (showToast ''Chat loaded!'' ''success'' s, False))))"

definition loadSession_resume ::
  "browser \<Rightarrow> nat \<Rightarrow> string \<Rightarrow> session_outcome \<Rightarrow> state \<Rightarrow> state" where
  "loadSession_resume B now sessionId' outcome s =
     (case loadSession_try B now sessionId' outcome s of
        (s', True) \<Rightarrow> showToast ''Error loading chat'' ''error'' s'
      | (s', False) \<Rightarrow> s')"

section \<open>Restoring a backup\<close>

text \<open>
  The text of the file after \<open>JSON.parse\<close>: the parse fails, or gives \<open>null\<close>, or a value
  that is no object (none of its fields is defined), or an object. The fields of a backup
  object, where present, have the types the backup writer gives them. The test
  \<open>backup.version && backup.config\<close> yields the configuration or a falsy value.
\<close>

record saved_state =
  saved_sessionId :: string
  saved_messages :: "message list option"

record backup =
  b_version :: "string option"
  b_config :: "config option"
  b_state :: "saved_state option"
  b_localStorage :: "(string \<times> string) list option"

datatype parsed = SyntaxError | ParsedNull | ParsedOther | ParsedObject backup

definition restoreFile_onload :: "parsed \<Rightarrow> state \<Rightarrow> state" where
  "restoreFile_onload p s =
     (case p of
        SyntaxError \<Rightarrow> showToast ''Error reading backup file'' ''error'' s
      | ParsedNull \<Rightarrow> showToast ''Error reading backup file'' ''error'' s
      | ParsedOther \<Rightarrow> showToast ''Invalid backup file'' ''error'' s
      | ParsedObject b \<Rightarrow>
          (case (if (case b_version b of None \<Rightarrow> False | Some v \<Rightarrow> v \<noteq> [])
                 then b_config b else None) of
             None \<Rightarrow> showToast ''Invalid backup file'' ''error'' s
           | Some cfg \<Rightarrow>
            (let s = s\<lparr>CONFIG := cfg\<rparr>;
                 s = (case b_state b of
                        None \<Rightarrow> s
                      | Some st \<Rightarrow>
                          s\<lparr>sessionId := saved_sessionId st,
                            messages := (case saved_messages st of None \<Rightarrow> [] | Some ms \<Rightarrow> ms)\<rparr>);
                 s = (case b_localStorage b of
                        None \<Rightarrow> s
                      | Some kvs \<Rightarrow>
                          s\<lparr>localStorage :=
                               foldl (\<lambda>ls (key, value). ls(key \<mapsto> value)) (localStorage s) kvs\<rparr>);
                 s = showToast ''Backup restored! Reloading...'' ''success'' s
             in s\<lparr>reloadScheduled := True\<rparr>)))"

section \<open>Loading the settings\<close>

definition digits_value :: "string \<Rightarrow> nat" where
  "digits_value ds = foldl (\<lambda>a c. 10 * a + (of_char c - 48)) 0 ds"

definition parse_exponent :: "string \<Rightarrow> int" where
  \<comment> \<open>the value of an exponent part at the start of the text; 0 where there is none\<close>
  "parse_exponent s =
     (case s of
        [] \<Rightarrow> 0
      | c # r \<Rightarrow>
          if c = CHR ''e'' \<or> c = CHR ''E'' then
            (let neg = (case r of [] \<Rightarrow> False | d # _ \<Rightarrow> d = CHR ''-'');
                 ds = takeWhile is_digit
                        (case r of
                           [] \<Rightarrow> []
                         | d # r' \<Rightarrow> if d = CHR ''-'' \<or> d = CHR ''+'' then r' else r)
             in if ds = [] then 0
                else if neg then - int (digits_value ds) else int (digits_value ds))
          else 0)"

text \<open>
  \<open>parseFloat\<close>: leading white space is dropped, and the longest prefix that is a decimal
  literal (a sign, \<open>Infinity\<close> or digits with an optional fraction and exponent) gives the
  number; without such a prefix the result is NaN. The sign of a zero is not kept.
\<close>

definition parseFloat :: "string \<Rightarrow> jsnum" where
  "parseFloat inputString =
     (let trimmed = dropWhile is_ws inputString;
          neg = (case trimmed of [] \<Rightarrow> False | c # _ \<Rightarrow> c = CHR ''-'');
          u = (case trimmed of
                 [] \<Rightarrow> []
               | c # r \<Rightarrow> if c = CHR ''-'' \<or> c = CHR ''+'' then r else trimmed)
      in if take 8 u = ''Infinity'' then Infinity neg
         else
           (let ip = takeWhile is_digit u;
                r1 = dropWhile is_digit u;
                fp = (case r1 of
                        [] \<Rightarrow> []
                      | c # r \<Rightarrow> if c = CHR ''.'' then takeWhile is_digit r else []);
                r2 = (case r1 of
                        [] \<Rightarrow> []
                      | c # r \<Rightarrow> if c = CHR ''.'' then dropWhile is_digit r else r1)
            in if ip = [] \<and> fp = [] then NaN
               else Dec ((if neg then - 1 else 1) * int (digits_value (ip @ fp)))
                      (parse_exponent r2 - int (length fp))))"

definition or_default :: "string option \<Rightarrow> string \<Rightarrow> string" where
  \<comment> \<open>\<open>x || d\<close> for \<open>x\<close> a string or \<open>null\<close>: the empty string is falsy\<close>
  "or_default x d = (case x of None \<Rightarrow> d | Some v \<Rightarrow> if v = [] then d else v)"

definition loadCONFIG :: "(string \<rightharpoonup> string) \<Rightarrow> config" where
  \<comment> \<open>the object \<open>CONFIG\<close> as the script builds it from local storage\<close>
  "loadCONFIG ls =
     \<lparr>apiEndpoint = or_default (ls ''apiEndpoint'') ''http://localhost:8000'',
      model = or_default (ls ''model'') ''deepseek/deepseek-chat'',
      temperature = (let t = parseFloat (template (ls ''temperature''))
                     in if num_truthy t then t else Dec 7 (- 1)),
      voiceOutput = (ls ''voiceOutput'' = Some ''true''),
      theme = or_default (ls ''theme'') ''dark''\<rparr>"

definition migrateEndpoint :: "config \<Rightarrow> (string \<rightharpoonup> string) \<Rightarrow> config \<times> (string \<rightharpoonup> string)" where
  \<comment> \<open>the migration that follows: the old default endpoint becomes the local one\<close>
  "migrateEndpoint cfg ls =
     (if apiEndpoint cfg = ''https://nao-ai.onrender.com/''
      then (cfg\<lparr>apiEndpoint := ''http://localhost:8000''\<rparr>,
            ls(''apiEndpoint'' \<mapsto> ''http://localhost:8000''))
      else (cfg, ls))"

definition initCONFIG :: "(string \<rightharpoonup> string) \<Rightarrow> config \<times> (string \<rightharpoonup> string)" where
  \<comment> \<open>the settings and local storage when the script has passed both\<close>
  "initCONFIG ls = migrateEndpoint (loadCONFIG ls) ls"

section \<open>Runs of the page\<close>

text \<open>
  The page runs one handler at a time. An event is a call of \<open>sendMessage\<close>, the outcome
  of a chat request, a new chat, or the outcome of a session request. Next to the state a
  run counts the chat outcomes delivered so far: the network delivers an outcome only for
  a request that still waits for one, and \<open>sendMessage\<close> resumes once for each outcome.
\<close>

definition is_chat :: "request \<Rightarrow> bool" where
  "is_chat r = (case r of ChatRequest _ _ _ _ _ _ _ \<Rightarrow> True | _ \<Rightarrow> False)"

definition chat_requests :: "state \<Rightarrow> nat" where
  "chat_requests s = length (filter is_chat (fetches s))"

datatype event =
    Send nat string "string option" "string option"
  | ChatOutcome nat chat_outcome
  | NewChat string
  | SessionOutcome nat string session_outcome

fun step :: "browser \<Rightarrow> state \<times> nat \<Rightarrow> event \<Rightarrow> state \<times> nat" where
  "step B (s, d) (Send now msg img ty) = (sendMessage B now msg img ty s, d)"
| "step B (s, d) (ChatOutcome now outcome) =
     (if d < chat_requests s then (sendMessage_resume B now outcome s, Suc d) else (s, d))"
| "step B (s, d) (NewChat r) = (startNewChat r s, d)"
| "step B (s, d) (SessionOutcome now i outcome) = (loadSession_resume B now i outcome s, d)"

definition run :: "browser \<Rightarrow> state \<Rightarrow> event list \<Rightarrow> state \<times> nat" where
  \<comment> \<open>from a state in which every chat request sent has had its outcome\<close>
  "run B s es = foldl (step B) (s, chat_requests s) es"

definition in_flight :: "state \<times> nat \<Rightarrow> nat" where
  \<comment> \<open>the chat requests that wait for their outcome\<close>
  "in_flight sd = chat_requests (fst sd) - snd sd"

definition flight_inv :: "state \<times> nat \<Rightarrow> bool" where
  "flight_inv sd =
     (chat_requests (fst sd) = (if isProcessing (fst sd) then Suc (snd sd) else snd sd))"

text \<open>
  The reason a failed chat request is reported with: the message of the error \<open>fetch\<close>
  or the reading of the body threw, or the \<open>detail\<close> of the error body, or a fixed text
  where the body has no detail.
\<close>

definition failure_reason :: "chat_outcome \<Rightarrow> string" where
  "failure_reason outcome =
     (case outcome of
        FetchError m \<Rightarrow> m
      | HttpError (BodyError m) \<Rightarrow> m
      | HttpError (Body None) \<Rightarrow> ''Failed to get response''
      | HttpError (Body (Some d)) \<Rightarrow> (if d = [] then ''Failed to get response'' else d)
      | HttpOk _ \<Rightarrow> [])"

definition typing_count :: "state \<Rightarrow> nat" where
  \<comment> \<open>the typing placeholders in the transcript\<close>
  "typing_count s = length (filter (\<lambda>n. n = TypingIndicator) (messagesContainer s))"

definition typing_inv :: "state \<times> nat \<Rightarrow> bool" where
  "typing_inv sd = (typing_count (fst sd) \<le> (if isProcessing (fst sd) then 1 else 0))"

section \<open>An example page\<close>

definition example_browser :: browser where
  "example_browser =
     \<lparr>formatTime = (\<lambda>t. ''12:00 PM''), toLocaleString = string_of_nat,
      dateToLocaleString = (\<lambda>t. ''1/1/2026, 12:00:00 PM''), speechSynthesis = True\<rparr>"

definition example_config :: config where
  "example_config =
     \<lparr>apiEndpoint = ''http://localhost:8000'', model = ''deepseek/deepseek-chat'',
      temperature = Dec 7 (- 1), voiceOutput = False, theme = ''dark''\<rparr>"

definition example_state :: state where
  \<comment> \<open>the page after it has loaded with the session \<open>session_4fzyo82mvyr\<close> in local storage\<close>
  "example_state =
     \<lparr>sessionId = ''session_4fzyo82mvyr'', currentImage = None, imageType = None,
      isProcessing = False, messages = [], CONFIG = example_config,
      localStorage = [''sessionId'' \<mapsto> ''session_4fzyo82mvyr'', ''theme'' \<mapsto> ''dark''],
      messagesContainer = [WelcomeMessage], welcomeMessage = Some ''flex'',
      sendBtnDisabled = False, messageInput = ''hello'', imagePreviewDisplay = ''none'',
      previewImgSrc = [], imageInputValue = [], historyItems = [], sessionMsgCount = Some ''0 messages'',
      totalTokens = Some ''0'', toasts = [], fetches = [], spoken = [], fileReads = [],
      downloads = [], reloadScheduled = False\<rparr>"

section \<open>Properties\<close>

subsection \<open>What appending a message changes\<close>

lemma updateSessionStats_fields [simp]:
  "sessionId (updateSessionStats B s) = sessionId s"
  "currentImage (updateSessionStats B s) = currentImage s"
  "imageType (updateSessionStats B s) = imageType s"
  "isProcessing (updateSessionStats B s) = isProcessing s"
  "messages (updateSessionStats B s) = messages s"
  "CONFIG (updateSessionStats B s) = CONFIG s"
  "localStorage (updateSessionStats B s) = localStorage s"
  "messagesContainer (updateSessionStats B s) = messagesContainer s"
  "welcomeMessage (updateSessionStats B s) = welcomeMessage s"
  "sendBtnDisabled (updateSessionStats B s) = sendBtnDisabled s"
  "toasts (updateSessionStats B s) = toasts s"
  "fetches (updateSessionStats B s) = fetches s"
  "spoken (updateSessionStats B s) = spoken s"
  "fileReads (updateSessionStats B s) = fileReads s"
  "reloadScheduled (updateSessionStats B s) = reloadScheduled s"
  by (simp_all add: updateSessionStats_def Let_def split: option.split)

lemma originalAddMessage_fields [simp]:
  "sessionId (originalAddMessage B now r c rs img s) = sessionId s"
  "currentImage (originalAddMessage B now r c rs img s) = currentImage s"
  "imageType (originalAddMessage B now r c rs img s) = imageType s"
  "isProcessing (originalAddMessage B now r c rs img s) = isProcessing s"
  "messages (originalAddMessage B now r c rs img s) =
     messages s @ [\<lparr>role = r, content = c, reasoning = rs, imageUrl = img, timestamp = now\<rparr>]"
  "CONFIG (originalAddMessage B now r c rs img s) = CONFIG s"
  "localStorage (originalAddMessage B now r c rs img s) = localStorage s"
  "messagesContainer (originalAddMessage B now r c rs img s) =
     messagesContainer s @ [createMessageElement B now r c rs img]"
  "sendBtnDisabled (originalAddMessage B now r c rs img s) = sendBtnDisabled s"
  "toasts (originalAddMessage B now r c rs img s) = toasts s"
  "fetches (originalAddMessage B now r c rs img s) = fetches s"
  "fileReads (originalAddMessage B now r c rs img s) = fileReads s"
  "reloadScheduled (originalAddMessage B now r c rs img s) = reloadScheduled s"
  "sessionMsgCount (originalAddMessage B now r c rs img s) = sessionMsgCount s"
  "totalTokens (originalAddMessage B now r c rs img s) = totalTokens s"
  by (simp_all add: originalAddMessage_def speakText_def Let_def split: option.split)

subsection \<open>Sending\<close>

lemma sendMessage_ignored: "isProcessing s \<Longrightarrow> sendMessage B now msg img ty s = s"
  by (simp add: sendMessage_def)

lemma sendMessage_sets_flag: "isProcessing (sendMessage B now msg img ty s)"
  by (simp add: sendMessage_def Let_def addMessage_def clearImagePreview_def
      showTypingIndicator_def)

lemma sendMessage_resume_clears: "\<not> isProcessing (sendMessage_resume B now outcome s)"
  by (simp add: sendMessage_resume_def sendMessage_finally_def)

lemma sendMessage_accepted:
  assumes "\<not> isProcessing s"
  shows "messages (sendMessage B now msg img ty s) =
           messages s @ [\<lparr>role = ''user'', content = msg, reasoning = None,
                          imageUrl = userImageUrl img ty, timestamp = now\<rparr>]"
    and "messagesContainer (sendMessage B now msg img ty s) =
           messagesContainer s
             @ [createMessageElement B now ''user'' msg None (userImageUrl img ty), TypingIndicator]"
    and "fetches (sendMessage B now msg img ty s) =
           fetches s @ [ChatRequest (apiEndpoint (CONFIG s) @ ''/chat'') msg (sessionId s)
                          (model (CONFIG s)) (temperature (CONFIG s)) img ty]"
    and "toasts (sendMessage B now msg img ty s) = toasts s"
  using assms
  by (simp_all add: sendMessage_def Let_def addMessage_def clearImagePreview_def
      showTypingIndicator_def userImageUrl_def)

lemma chat_requests_sendMessage:
  "chat_requests (sendMessage B now msg img ty s)
     = (if isProcessing s then chat_requests s else Suc (chat_requests s))"
  by (simp add: chat_requests_def sendMessage_accepted(3) sendMessage_ignored is_chat_def)

lemma addMessage_flight:
  "fetches (addMessage B now r c rs img s) = fetches s"
  "isProcessing (addMessage B now r c rs img s) = isProcessing s"
  by (simp_all add: addMessage_def)

lemma chat_requests_resume:
  "chat_requests (sendMessage_resume B now outcome s) = chat_requests s"
  by (simp add: chat_requests_def sendMessage_resume_def sendMessage_finally_def
      sendMessage_try_def sendMessage_catch_def showToast_def removeTypingIndicator_def
      loadChatHistory_def is_chat_def addMessage_flight Let_def
      split: chat_outcome.split body.split option.split)

lemma startNewChat_flight:
  "fetches (startNewChat r s) = fetches s"
  "isProcessing (startNewChat r s) = isProcessing s"
  by (simp_all add: startNewChat_def showToast_def Let_def split: option.split)

lemma foldl_addMessage_flight:
  "fetches (foldl (\<lambda>s msg. addMessage B now (f msg) (g msg) (h msg) None s) s msgs) = fetches s
   \<and> isProcessing (foldl (\<lambda>s msg. addMessage B now (f msg) (g msg) (h msg) None s) s msgs)
       = isProcessing s"
  by (induction msgs arbitrary: s) (simp_all add: addMessage_flight)

lemma loadSession_resume_flight:
  "fetches (loadSession_resume B now i outcome s) = fetches s"
  "isProcessing (loadSession_resume B now i outcome s) = isProcessing s"
  by (simp_all add: loadSession_resume_def loadSession_try_def showToast_def Let_def
      foldl_addMessage_flight split: session_outcome.split body.split option.split)

lemma flight_inv_step: "flight_inv sd \<Longrightarrow> flight_inv (step B sd e)"
proof (cases sd)
  case (Pair s d)
  assume "flight_inv sd"
  then have i: "chat_requests s = (if isProcessing s then Suc d else d)"
    by (simp add: flight_inv_def Pair)
  show ?thesis
  proof (cases e)
    case (Send now msg img ty)
    with i show ?thesis
      by (simp add: Pair flight_inv_def chat_requests_sendMessage sendMessage_sets_flag)
  next
    case (ChatOutcome now outcome)
    with i show ?thesis
      by (simp add: Pair flight_inv_def chat_requests_resume sendMessage_resume_clears
          split: if_splits)
  next
    case (NewChat r)
    with i show ?thesis
      by (simp add: Pair flight_inv_def chat_requests_def startNewChat_flight)
  next
    case (SessionOutcome now j outcome)
    with i show ?thesis
      by (simp add: Pair flight_inv_def chat_requests_def loadSession_resume_flight)
  qed
qed

lemma flight_inv_foldl: "flight_inv sd \<Longrightarrow> flight_inv (foldl (step B) sd es)"
  by (induction es arbitrary: sd) (simp_all add: flight_inv_step)

lemma flight_inv_run: "\<not> isProcessing s \<Longrightarrow> flight_inv (run B s es)"
  unfolding run_def by (rule flight_inv_foldl) (simp add: flight_inv_def)

text \<open>
  C1. While a send is in flight (\<open>isProcessing\<close> is set), a call of \<open>sendMessage\<close> changes
  nothing: the whole state, with the message log, the transcript and the list of requests
  sent, is the one before the call. Every call leaves the flag set, so a second call that
  follows a first one is ignored whatever the state was; the flag is cleared when the
  request has its outcome, and the next call then sends a request again. In every run of
  the page from an idle state at most one chat request waits for its outcome, and the flag
  is set exactly while one does.
\<close>

theorem single_flight_send:
  "(isProcessing s \<longrightarrow> sendMessage B now msg img ty s = s)
   \<and> isProcessing (sendMessage B now msg img ty s)
   \<and> sendMessage B now' msg' img' ty' (sendMessage B now msg img ty s)
       = sendMessage B now msg img ty s
   \<and> \<not> isProcessing (sendMessage_resume B now' outcome s)
   \<and> fetches (sendMessage B now msg img ty (sendMessage_resume B now' outcome s))
       = fetches (sendMessage_resume B now' outcome s)
           @ [ChatRequest (apiEndpoint (CONFIG (sendMessage_resume B now' outcome s)) @ ''/chat'')
                msg (sessionId (sendMessage_resume B now' outcome s))
                (model (CONFIG (sendMessage_resume B now' outcome s)))
                (temperature (CONFIG (sendMessage_resume B now' outcome s))) img ty]
   \<and> (\<not> isProcessing s \<longrightarrow>
        in_flight (run B s es) \<le> 1
        \<and> isProcessing (fst (run B s es)) = (in_flight (run B s es) = 1))"
proof (intro conjI impI)
  show "sendMessage B now msg img ty s = s" if "isProcessing s"
    using that by (rule sendMessage_ignored)
  show "isProcessing (sendMessage B now msg img ty s)"
    by (rule sendMessage_sets_flag)
  show "sendMessage B now' msg' img' ty' (sendMessage B now msg img ty s)
      = sendMessage B now msg img ty s"
    by (rule sendMessage_ignored) (rule sendMessage_sets_flag)
  show "\<not> isProcessing (sendMessage_resume B now' outcome s)"
    by (rule sendMessage_resume_clears)
  then show "fetches (sendMessage B now msg img ty (sendMessage_resume B now' outcome s))
       = fetches (sendMessage_resume B now' outcome s)
           @ [ChatRequest (apiEndpoint (CONFIG (sendMessage_resume B now' outcome s)) @ ''/chat'')
                msg (sessionId (sendMessage_resume B now' outcome s))
                (model (CONFIG (sendMessage_resume B now' outcome s)))
                (temperature (CONFIG (sendMessage_resume B now' outcome s))) img ty]"
    by (rule sendMessage_accepted(3))
  show "in_flight (run B s es) \<le> 1" if "\<not> isProcessing s"
    using flight_inv_run [OF that, of B es] by (simp add: flight_inv_def in_flight_def)
  show "isProcessing (fst (run B s es)) = (in_flight (run B s es) = 1)" if "\<not> isProcessing s"
    using flight_inv_run [OF that, of B es] by (simp add: flight_inv_def in_flight_def)
qed

theorem single_flight_send_witness:
  "isProcessing (example_state\<lparr>isProcessing := True\<rparr>)
   \<and> sendMessage example_browser 5 ''again'' None None (example_state\<lparr>isProcessing := True\<rparr>)
       = example_state\<lparr>isProcessing := True\<rparr>
   \<and> \<not> isProcessing example_state
   \<and> in_flight (run example_browser example_state
        [Send 1 ''one'' None None, Send 2 ''two'' None None, ChatOutcome 3 (FetchError ''offline''),
         Send 4 ''three'' None None]) \<le> 1"
proof -
  have idle: "\<not> isProcessing example_state"
    by (simp add: example_state_def)
  from single_flight_send [of "example_state\<lparr>isProcessing := True\<rparr>" example_browser 5
      "''again''" None None]
  have "sendMessage example_browser 5 ''again'' None None (example_state\<lparr>isProcessing := True\<rparr>)
       = example_state\<lparr>isProcessing := True\<rparr>"
    by simp
  moreover
  from single_flight_send [of example_state example_browser 0 "[]" None None 0 "[]" None None
      "FetchError []"
      "[Send 1 ''one'' None None, Send 2 ''two'' None None, ChatOutcome 3 (FetchError ''offline''),
        Send 4 ''three'' None None]"] idle
  have "in_flight (run example_browser example_state
        [Send 1 ''one'' None None, Send 2 ''two'' None None, ChatOutcome 3 (FetchError ''offline''),
         Send 4 ''three'' None None]) \<le> 1"
    by blast
  ultimately show ?thesis using idle by simp
qed

lemma sendMessage_catch_fields:
  "messages (sendMessage_catch B now m s) =
     messages s
       @ [\<lparr>role = ''bot'',
            content = ''Sorry, I encountered an error: '' @ m
              @ ''. Please check if the backend server is running.'',
            reasoning = None, imageUrl = None, timestamp = now\<rparr>]"
  "messagesContainer (sendMessage_catch B now m s) =
     remove1 TypingIndicator (messagesContainer s)
       @ [createMessageElement B now ''bot''
            (''Sorry, I encountered an error: '' @ m
               @ ''. Please check if the backend server is running.'') None None]"
  "toasts (sendMessage_catch B now m s) = toasts s @ [(m, ''error'')]"
  "fetches (sendMessage_catch B now m s) = fetches s"
  "sessionId (sendMessage_catch B now m s) = sessionId s"
  by (simp_all add: sendMessage_catch_def Let_def addMessage_def removeTypingIndicator_def
      showToast_def)

lemma typing_count_zero:
  "typing_count s = 0 \<longleftrightarrow> TypingIndicator \<notin> set (messagesContainer s)"
  by (auto simp: typing_count_def filter_empty_conv)

lemma sendMessage_try_failed:
  "outcome = FetchError e \<or> outcome = HttpError b \<Longrightarrow>
   sendMessage_try B now outcome s = Inl (failure_reason outcome)"
  by (auto simp: sendMessage_try_def failure_reason_def split: body.split option.split)

lemma sendMessage_resume_failed:
  "outcome = FetchError e \<or> outcome = HttpError b \<Longrightarrow>
   sendMessage_resume B now outcome s
     = sendMessage_finally (sendMessage_catch B now (failure_reason outcome) s)"
  by (simp add: sendMessage_resume_def sendMessage_try_failed)

lemma count_remove1:
  "length (filter (\<lambda>n. n = x) (remove1 x xs)) = length (filter (\<lambda>n. n = x) xs) - 1"
  by (induction xs) auto


lemma container_addMessage:
  "messagesContainer (addMessage B now r c rs img s)
     = messagesContainer s @ [createMessageElement B now r c rs img]"
  by (simp add: addMessage_def)

lemma typing_count_addMessage: "typing_count (addMessage B now r c rs img s) = typing_count s"
  by (simp add: typing_count_def container_addMessage createMessageElement_def)

lemma container_resume:
  "\<exists>el. el \<noteq> TypingIndicator
     \<and> messagesContainer (sendMessage_resume B now outcome s)
         = remove1 TypingIndicator (messagesContainer s) @ [el]"
proof (cases "sendMessage_try B now outcome s")
  case (Inl m)
  then have "messagesContainer (sendMessage_resume B now outcome s)
      = messagesContainer (sendMessage_catch B now m s)"
    by (simp add: sendMessage_resume_def sendMessage_finally_def)
  then show ?thesis
    by (simp add: sendMessage_catch_fields(2) createMessageElement_def)
next
  case (Inr s')
  then obtain data where o: "outcome = HttpOk (Body data)"
    by (cases outcome; simp add: sendMessage_try_def split: body.splits)
  define s1 where "s1 = addMessage B now ''bot'' (final_answer data)
      (Some \<lparr>short = short_reasoning data, full = full_reasoning data\<rparr>) None
      (removeTypingIndicator s)"
  have c1: "messagesContainer s1 = remove1 TypingIndicator (messagesContainer s)
      @ [createMessageElement B now ''bot'' (final_answer data)
           (Some \<lparr>short = short_reasoning data, full = full_reasoning data\<rparr>) None]"
    by (simp add: s1_def container_addMessage removeTypingIndicator_def)
  have "messagesContainer s' = messagesContainer s1"
    using Inr unfolding o
    by (auto simp add: sendMessage_try_def Let_def s1_def [symmetric] loadChatHistory_def
        split: option.splits if_splits)
  with Inr have "messagesContainer (sendMessage_resume B now outcome s) = messagesContainer s1"
    by (simp add: sendMessage_resume_def sendMessage_finally_def)
  then show ?thesis
    by (simp add: c1 createMessageElement_def)
qed

lemma typing_count_resume:
  "typing_count (sendMessage_resume B now outcome s) = typing_count s - 1"
proof -
  from container_resume [of B now outcome s] obtain el where "el \<noteq> TypingIndicator"
    and "messagesContainer (sendMessage_resume B now outcome s)
         = remove1 TypingIndicator (messagesContainer s) @ [el]"
    by blast
  then show ?thesis by (simp add: typing_count_def count_remove1)
qed

lemma typing_count_sendMessage:
  "typing_count (sendMessage B now msg img ty s)
     = (if isProcessing s then typing_count s else Suc (typing_count s))"
  by (simp add: typing_count_def sendMessage_accepted(2) sendMessage_ignored createMessageElement_def)

lemma typing_count_startNewChat: "typing_count (startNewChat r s) = 0"
  by (simp add: typing_count_def startNewChat_def showToast_def Let_def split: option.split)

lemma typing_count_foldl:
  "typing_count (foldl (\<lambda>s msg. addMessage B now (f msg) (g msg) (h msg) None s) s msgs)
     = typing_count s"
  by (induction msgs arbitrary: s) (simp_all add: typing_count_addMessage)

lemma typing_count_loadSession:
  "typing_count (loadSession_resume B now i outcome s) = typing_count s
   \<or> typing_count (loadSession_resume B now i outcome s) = 0"
proof -
  have t: "typing_count (loadSession_resume B now i outcome s)
      = typing_count (fst (loadSession_try B now i outcome s))"
    by (cases "loadSession_try B now i outcome s")
      (simp add: loadSession_resume_def showToast_def typing_count_def split: bool.split)
  have "typing_count (fst (loadSession_try B now i outcome s)) = typing_count s
      \<or> typing_count (fst (loadSession_try B now i outcome s)) = 0"
  proof (cases outcome)
    case SessionFetchError
    then show ?thesis by (simp add: loadSession_try_def)
  next
    case (SessionResponse ok bd)
    show ?thesis
    proof (cases bd)
      case (BodyError m)
      with SessionResponse show ?thesis by (simp add: loadSession_try_def)
    next
      case (Body ms)
      show ?thesis
      proof (cases ms)
        case None
        with SessionResponse Body show ?thesis by (simp add: loadSession_try_def)
      next
        case (Some msgs)
        have z: "typing_count (s'\<lparr>messagesContainer := []\<rparr>) = 0" for s' :: state
          by (simp add: typing_count_def)
        have k: "typing_count (s'\<lparr>historyItems := x\<rparr>) = typing_count s'"
          "typing_count (s'\<lparr>toasts := y\<rparr>) = typing_count s'"
          "typing_count (s'\<lparr>welcomeMessage := w\<rparr>) = typing_count s'" for s' :: state and x y w
          by (simp_all add: typing_count_def)
        show ?thesis
          unfolding SessionResponse Body Some
          by (rule disjI2)
            (simp add: loadSession_try_def Let_def showToast_def typing_count_foldl k z
              split: option.split)
      qed
    qed
  qed
  with t show ?thesis by simp
qed

lemma typing_inv_step: "typing_inv sd \<Longrightarrow> typing_inv (step B sd e)"
proof (cases sd)
  case (Pair s d)
  assume "typing_inv sd"
  then have i: "typing_count s \<le> (if isProcessing s then 1 else 0)"
    by (simp add: typing_inv_def Pair)
  show ?thesis
  proof (cases e)
    case (Send now msg img ty)
    with i show ?thesis
      by (auto simp add: Pair typing_inv_def typing_count_sendMessage sendMessage_sets_flag
          split: if_splits)
  next
    case (ChatOutcome now outcome)
    with i show ?thesis
      by (simp add: Pair typing_inv_def typing_count_resume sendMessage_resume_clears
          split: if_splits)
  next
    case (NewChat r)
    then show ?thesis
      by (simp add: Pair typing_inv_def typing_count_startNewChat)
  next
    case (SessionOutcome now j outcome)
    with i typing_count_loadSession [of B now j outcome s] show ?thesis
      by (auto simp add: Pair typing_inv_def loadSession_resume_flight)
  qed
qed

lemma typing_inv_foldl: "typing_inv sd \<Longrightarrow> typing_inv (foldl (step B) sd es)"
  by (induction es arbitrary: sd) (simp_all add: typing_inv_step)

lemma typing_inv_run:
  "\<not> isProcessing s \<Longrightarrow> TypingIndicator \<notin> set (messagesContainer s) \<Longrightarrow> typing_inv (run B s es)"
  unfolding run_def
  by (rule typing_inv_foldl) (simp add: typing_inv_def typing_count_zero)

lemma no_typing_after_outcome:
  assumes "\<not> isProcessing s" "TypingIndicator \<notin> set (messagesContainer s)"
  shows "TypingIndicator \<notin> set (messagesContainer (sendMessage_resume B now outcome (fst (run B s es))))"
proof -
  from typing_inv_run [OF assms, of B es] have "typing_count (fst (run B s es)) \<le> 1"
    by (simp add: typing_inv_def split: if_splits)
  then have "typing_count (sendMessage_resume B now outcome (fst (run B s es))) = 0"
    by (simp add: typing_count_resume)
  then show ?thesis using typing_count_zero by blast
qed

text \<open>
  C2, as the claim states it, fails: nothing holds a new chat or a session load back while
  a send is in flight, and either replaces the message log. Here a new chat is started
  between the send and its failure, and the log is left with the error message alone.
\<close>

theorem failed_send_loses_user_message:
  "map content (messages (sendMessage_resume example_browser 3 (FetchError ''offline'')
       (startNewChat ''0.i'' (sendMessage example_browser 1 ''hello'' None None example_state))))
     = [''Sorry, I encountered an error: offline. Please check if the backend server is running.'']"
proof -
  have "messages (startNewChat ''0.i''
      (sendMessage example_browser 1 ''hello'' None None example_state)) = []"
    by (simp add: startNewChat_def showToast_def Let_def split: option.split)
  moreover have "FetchError ''offline'' = FetchError ''offline'' \<or> FetchError ''offline'' = HttpError b"
    for b
    by simp
  ultimately show ?thesis
    by (simp add: sendMessage_resume_failed sendMessage_finally_def sendMessage_catch_fields
        failure_reason_def)
qed

text \<open>
  C2, amended. A chat request fails: \<open>fetch\<close> rejects (\<open>FetchError\<close>) or the response is
  not ok (\<open>HttpError\<close>). When \<open>sendMessage\<close> resumes, in whatever state the page then is,
  the first typing placeholder is removed, exactly one message of role \<open>bot\<close> that carries
  the reason of the failure is appended to the message log as it then stands (so every
  message in the log stays), the same reason is shown as an error toast, the session
  identifier and the requests sent are as before, and the processing flag is cleared and
  the send button enabled; the flag is cleared after every outcome, also a successful one.
  When the failure follows the send directly, from an idle page without a placeholder, the
  log is the old log, the user's message and the error message. In every run from such a
  page no typing placeholder is left after the outcome.
\<close>

theorem failed_send_recovery:
  assumes failed: "outcome = FetchError e \<or> outcome = HttpError b"
  shows "messages (sendMessage_resume B now' outcome s1) =
           messages s1
             @ [\<lparr>role = ''bot'',
                  content = ''Sorry, I encountered an error: '' @ failure_reason outcome
                    @ ''. Please check if the backend server is running.'',
                  reasoning = None, imageUrl = None, timestamp = now'\<rparr>]
         \<and> messagesContainer (sendMessage_resume B now' outcome s1) =
             remove1 TypingIndicator (messagesContainer s1)
               @ [createMessageElement B now' ''bot''
                    (''Sorry, I encountered an error: '' @ failure_reason outcome
                       @ ''. Please check if the backend server is running.'') None None]
         \<and> toasts (sendMessage_resume B now' outcome s1) =
             toasts s1 @ [(failure_reason outcome, ''error'')]
         \<and> sessionId (sendMessage_resume B now' outcome s1) = sessionId s1
         \<and> fetches (sendMessage_resume B now' outcome s1) = fetches s1
         \<and> \<not> isProcessing (sendMessage_resume B now' outcome s1)
         \<and> \<not> sendBtnDisabled (sendMessage_resume B now' outcome s1)
         \<and> \<not> isProcessing (sendMessage_resume B now' any s')
         \<and> (\<not> isProcessing s \<and> TypingIndicator \<notin> set (messagesContainer s) \<longrightarrow>
              messages (sendMessage_resume B now' outcome (sendMessage B now msg img ty s)) =
                messages s
                  @ [\<lparr>role = ''user'', content = msg, reasoning = None,
                       imageUrl = userImageUrl img ty, timestamp = now\<rparr>,
                     \<lparr>role = ''bot'',
                       content = ''Sorry, I encountered an error: '' @ failure_reason outcome
                         @ ''. Please check if the backend server is running.'',
                       reasoning = None, imageUrl = None, timestamp = now'\<rparr>]
              \<and> TypingIndicator
                  \<notin> set (messagesContainer
                           (sendMessage_resume B now' outcome (sendMessage B now msg img ty s)))
              \<and> TypingIndicator
                  \<notin> set (messagesContainer
                           (sendMessage_resume B now' outcome (fst (run B s es)))))"
proof -
  note r = sendMessage_resume_failed [OF failed]
  have 1: "messages (sendMessage_resume B now' outcome s1) =
           messages s1
             @ [\<lparr>role = ''bot'',
                  content = ''Sorry, I encountered an error: '' @ failure_reason outcome
                    @ ''. Please check if the backend server is running.'',
                  reasoning = None, imageUrl = None, timestamp = now'\<rparr>]" for s1
    by (simp add: r sendMessage_finally_def sendMessage_catch_fields)
  have 2: "messagesContainer (sendMessage_resume B now' outcome s1) =
             remove1 TypingIndicator (messagesContainer s1)
               @ [createMessageElement B now' ''bot''
                    (''Sorry, I encountered an error: '' @ failure_reason outcome
                       @ ''. Please check if the backend server is running.'') None None]" for s1
    by (simp add: r sendMessage_finally_def sendMessage_catch_fields)
  have 3: "toasts (sendMessage_resume B now' outcome s1) =
             toasts s1 @ [(failure_reason outcome, ''error'')]"
    and 4: "sessionId (sendMessage_resume B now' outcome s1) = sessionId s1"
    and 5: "fetches (sendMessage_resume B now' outcome s1) = fetches s1"
    by (simp_all add: r sendMessage_finally_def sendMessage_catch_fields)
  have 6: "\<not> isProcessing (sendMessage_resume B now' x y)" for x y
    by (rule sendMessage_resume_clears)
  have 7: "\<not> sendBtnDisabled (sendMessage_resume B now' outcome s1)"
    by (simp add: sendMessage_resume_def sendMessage_finally_def)
  have 8: "messages (sendMessage_resume B now' outcome (sendMessage B now msg img ty s)) =
                messages s
                  @ [\<lparr>role = ''user'', content = msg, reasoning = None,
                       imageUrl = userImageUrl img ty, timestamp = now\<rparr>,
                     \<lparr>role = ''bot'',
                       content = ''Sorry, I encountered an error: '' @ failure_reason outcome
                         @ ''. Please check if the backend server is running.'',
                       reasoning = None, imageUrl = None, timestamp = now'\<rparr>]"
    and 9: "TypingIndicator
                  \<notin> set (messagesContainer
                           (sendMessage_resume B now' outcome (sendMessage B now msg img ty s)))"
    and 10: "TypingIndicator
                  \<notin> set (messagesContainer
                           (sendMessage_resume B now' outcome (fst (run B s es))))"
    if idle: "\<not> isProcessing s" and clean: "TypingIndicator \<notin> set (messagesContainer s)"
  proof -
    show "messages (sendMessage_resume B now' outcome (sendMessage B now msg img ty s)) =
                messages s
                  @ [\<lparr>role = ''user'', content = msg, reasoning = None,
                       imageUrl = userImageUrl img ty, timestamp = now\<rparr>,
                     \<lparr>role = ''bot'',
                       content = ''Sorry, I encountered an error: '' @ failure_reason outcome
                         @ ''. Please check if the backend server is running.'',
                       reasoning = None, imageUrl = None, timestamp = now'\<rparr>]"
      by (simp add: 1 sendMessage_accepted [OF idle])
    show "TypingIndicator
                  \<notin> set (messagesContainer
                           (sendMessage_resume B now' outcome (sendMessage B now msg img ty s)))"
      using clean
      by (simp add: 2 sendMessage_accepted [OF idle] createMessageElement_def remove1_append)
    show "TypingIndicator
                  \<notin> set (messagesContainer
                           (sendMessage_resume B now' outcome (fst (run B s es))))"
      by (rule no_typing_after_outcome [OF idle clean])
  qed
  from 1 2 3 4 5 6 7 8 9 10 show ?thesis by blast
qed

theorem failed_send_recovery_witness:
  "\<not> isProcessing example_state
   \<and> TypingIndicator \<notin> set (messagesContainer example_state)
   \<and> map content (messages (sendMessage_resume example_browser 9
         (HttpError (Body (Some ''Rate limit exceeded'')))
         (sendMessage example_browser 5 ''hello'' None None example_state)))
       = [''hello'', ''Sorry, I encountered an error: Rate limit exceeded. Please check if the backend server is running.'']
   \<and> \<not> isProcessing (sendMessage_resume example_browser 9
         (HttpError (Body (Some ''Rate limit exceeded'')))
         (sendMessage example_browser 5 ''hello'' None None example_state))"
proof -
  have idle: "\<not> isProcessing example_state"
    by (simp add: example_state_def)
  have clean: "TypingIndicator \<notin> set (messagesContainer example_state)"
    by (simp add: example_state_def)
  have failed: "HttpError (Body (Some ''Rate limit exceeded'')) = FetchError []
      \<or> HttpError (Body (Some ''Rate limit exceeded'')) = HttpError (Body (Some ''Rate limit exceeded''))"
    by simp
  have empty: "messages example_state = []"
    by (simp add: example_state_def)
  have reason: "failure_reason (HttpError (Body (Some ''Rate limit exceeded''))) = ''Rate limit exceeded''"
    by (simp add: failure_reason_def)
  from failed_send_recovery [OF failed, where B = example_browser and now' = 9
      and s = example_state and now = 5 and msg = "''hello''" and img = None and ty = None]
    idle clean
  have "messages (sendMessage_resume example_browser 9
         (HttpError (Body (Some ''Rate limit exceeded'')))
         (sendMessage example_browser 5 ''hello'' None None example_state))
       = messages example_state
           @ [\<lparr>role = ''user'', content = ''hello'', reasoning = None,
                imageUrl = userImageUrl None None, timestamp = 5\<rparr>,
              \<lparr>role = ''bot'',
                content = ''Sorry, I encountered an error: ''
                  @ failure_reason (HttpError (Body (Some ''Rate limit exceeded'')))
                  @ ''. Please check if the backend server is running.'',
                reasoning = None, imageUrl = None, timestamp = 9\<rparr>]"
    and "\<not> isProcessing (sendMessage_resume example_browser 9
         (HttpError (Body (Some ''Rate limit exceeded'')))
         (sendMessage example_browser 5 ''hello'' None None example_state))"
    by blast+
  then show ?thesis using idle clean by (simp add: empty reason)
qed

subsection \<open>Statistics\<close>

lemma foldl_add_sum: "foldl (\<lambda>t m. t + f m) a xs = a + sum_list (map f xs)" for a :: nat
  by (induction xs arbitrary: a) simp_all

text \<open>
  C8. \<open>addMessage\<close>, as every caller reaches it, appends the message to the log and then
  recomputes the statistics: the message counter (where the document has one) shows the
  length of the log, and the token counter (where the document has one) shows the sum
  over the log of \<open>estimateTokens\<close> of the content, which is the content's length divided
  by four and rounded up.
\<close>

theorem stats_after_append:
  "messages (addMessage B now r c rs img s) =
     messages s @ [\<lparr>role = r, content = c, reasoning = rs, imageUrl = img, timestamp = now\<rparr>]
   \<and> (sessionMsgCount s \<noteq> None \<longrightarrow>
        sessionMsgCount (addMessage B now r c rs img s) =
          Some (string_of_nat (length (messages (addMessage B now r c rs img s))) @ '' messages''))
   \<and> (totalTokens s \<noteq> None \<longrightarrow>
        totalTokens (addMessage B now r c rs img s) =
          Some (toLocaleString B
                  (\<Sum>m\<leftarrow>messages (addMessage B now r c rs img s). estimateTokens (content m))))
   \<and> estimateTokens c = nat \<lceil>real (length c) / 4\<rceil>"
proof (intro conjI impI)
  show "messages (addMessage B now r c rs img s) =
      messages s @ [\<lparr>role = r, content = c, reasoning = rs, imageUrl = img, timestamp = now\<rparr>]"
    by (simp add: addMessage_def)
  show "sessionMsgCount (addMessage B now r c rs img s) =
      Some (string_of_nat (length (messages (addMessage B now r c rs img s))) @ '' messages'')"
    if "sessionMsgCount s \<noteq> None"
    using that
    by (simp add: addMessage_def) (auto simp add: updateSessionStats_def Let_def split: option.split)
  show "totalTokens (addMessage B now r c rs img s) =
      Some (toLocaleString B
              (\<Sum>m\<leftarrow>messages (addMessage B now r c rs img s). estimateTokens (content m)))"
    if "totalTokens s \<noteq> None"
    using that
    by (simp add: addMessage_def)
      (auto simp add: updateSessionStats_def Let_def foldl_add_sum split: option.split)
  show "estimateTokens c = nat \<lceil>real (length c) / 4\<rceil>"
    by (simp add: estimateTokens_def)
qed

theorem stats_after_append_witness:
  "sessionMsgCount example_state \<noteq> None \<and> totalTokens example_state \<noteq> None
   \<and> sessionMsgCount (addMessage example_browser 5 ''user'' ''hello'' None None example_state)
       = Some ''1 messages''
   \<and> totalTokens (addMessage example_browser 5 ''user'' ''hello'' None None example_state)
       = Some ''2''"
proof -
  have c: "sessionMsgCount example_state \<noteq> None" and t: "totalTokens example_state \<noteq> None"
    and e: "messages example_state = []"
    by (simp_all add: example_state_def)
  have one: "string_of_nat (Suc 0) = ''1''" and two: "string_of_nat 2 = ''2''"
    by code_simp+
  have tok: "estimateTokens ''hello'' = 2"
    by (simp add: estimateTokens_def)
  have loc: "toLocaleString example_browser = string_of_nat"
    by (simp add: example_browser_def)
  from stats_after_append [of example_browser 5 "''user''" "''hello''" None None example_state] c t
  show ?thesis
    by (simp add: e one two tok loc)
qed

subsection \<open>Image upload\<close>

lemma validTypes_set:
  "set validTypes = {''image/jpeg'', ''image/png'', ''image/gif'', ''image/webp''}"
  by (simp add: validTypes_def)

text \<open>
  C9. A file whose type is one of the four image types and whose size is at most
  \<open>10 * 1024 * 1024\<close> bytes is accepted: it is handed to the reader and nothing else
  changes. Every other file is rejected: an error toast is shown and nothing else changes,
  so the pending image (\<open>currentImage\<close>, \<open>imageType\<close>) is the one before and no read starts.
\<close>

theorem image_upload_validation:
  "(file_type f \<in> {''image/jpeg'', ''image/png'', ''image/gif'', ''image/webp''}
      \<and> file_size f \<le> 10 * 1024 * 1024
      \<longrightarrow> handleImageUpload (Some f) s = s\<lparr>fileReads := fileReads s @ [f]\<rparr>)
   \<and> (\<not> (file_type f \<in> {''image/jpeg'', ''image/png'', ''image/gif'', ''image/webp''}
          \<and> file_size f \<le> 10 * 1024 * 1024)
      \<longrightarrow> (\<exists>msg. handleImageUpload (Some f) s = s\<lparr>toasts := toasts s @ [(msg, ''error'')]\<rparr>)
          \<and> currentImage (handleImageUpload (Some f) s) = currentImage s
          \<and> imageType (handleImageUpload (Some f) s) = imageType s
          \<and> fileReads (handleImageUpload (Some f) s) = fileReads s)"
  unfolding validTypes_set [symmetric]
proof (intro conjI impI)
  assume "file_type f \<in> set validTypes \<and> file_size f \<le> 10 * 1024 * 1024"
  then show "handleImageUpload (Some f) s = s\<lparr>fileReads := fileReads s @ [f]\<rparr>"
    by (simp add: handleImageUpload_def)
next
  assume r: "\<not> (file_type f \<in> set validTypes \<and> file_size f \<le> 10 * 1024 * 1024)"
  then have "handleImageUpload (Some f) s
      = s\<lparr>toasts := toasts s @ [(''Please upload a valid image (JPEG, PNG, GIF, WebP)'', ''error'')]\<rparr>
    \<or> handleImageUpload (Some f) s
      = s\<lparr>toasts := toasts s @ [(''Image too large. Maximum size is 10MB'', ''error'')]\<rparr>"
    by (simp add: handleImageUpload_def showToast_def not_le)
  then show "\<exists>msg. handleImageUpload (Some f) s = s\<lparr>toasts := toasts s @ [(msg, ''error'')]\<rparr>"
    by blast
  from r show "currentImage (handleImageUpload (Some f) s) = currentImage s"
    by (simp add: handleImageUpload_def showToast_def not_le)
  from r show "imageType (handleImageUpload (Some f) s) = imageType s"
    by (simp add: handleImageUpload_def showToast_def not_le)
  from r show "fileReads (handleImageUpload (Some f) s) = fileReads s"
    by (simp add: handleImageUpload_def showToast_def not_le)
qed

theorem image_upload_validation_witness:
  "handleImageUpload (Some \<lparr>file_type = ''image/png'', file_size = 2048\<rparr>) example_state
     = example_state\<lparr>fileReads := fileReads example_state @ [\<lparr>file_type = ''image/png'', file_size = 2048\<rparr>]\<rparr>
   \<and> fileReads (handleImageUpload (Some \<lparr>file_type = ''image/svg+xml'', file_size = 2048\<rparr>)
        example_state) = fileReads example_state
   \<and> currentImage (handleImageUpload (Some \<lparr>file_type = ''image/png'', file_size = 10485761\<rparr>)
        example_state) = currentImage example_state"
  using image_upload_validation [of "\<lparr>file_type = ''image/png'', file_size = 2048\<rparr>" example_state]
    image_upload_validation [of "\<lparr>file_type = ''image/svg+xml'', file_size = 2048\<rparr>" example_state]
    image_upload_validation [of "\<lparr>file_type = ''image/png'', file_size = 10485761\<rparr>" example_state]
  by simp

subsection \<open>New chat\<close>

text \<open>
  C4, as the claim states it, fails: the new identifier is \<open>session_\<close> and characters of a
  random draw, and nothing compares it with the identifier in use. Here two new chats in
  a row meet the same draw (\<open>Math.random()\<close> gives 0.5 twice, printed as \<open>0.i\<close>), and the
  second leaves the identifier of the first.
\<close>

theorem new_chat_same_identifier:
  "sessionId (startNewChat ''0.i'' (startNewChat ''0.i'' example_state))
     = sessionId (startNewChat ''0.i'' example_state)"
  by (simp add: startNewChat_def generateSessionId_def showToast_def Let_def
      split: option.split)

text \<open>
  C4, amended. \<open>startNewChat\<close> sets the session identifier to \<open>session_\<close> followed by the
  characters 2 to 14 of the text of a random draw, stores that identifier under the key
  \<open>sessionId\<close>, empties the message log, and leaves in the transcript only the welcome
  element (where the document has one). The identifier differs from the one before exactly
  when the drawn text differs from it.
\<close>

theorem new_chat_rotates:
  "sessionId (startNewChat r s) = ''session_'' @ take 13 (drop 2 r)
   \<and> localStorage (startNewChat r s) = (localStorage s)(''sessionId'' \<mapsto> sessionId (startNewChat r s))
   \<and> messages (startNewChat r s) = []
   \<and> messagesContainer (startNewChat r s)
       = (case welcomeMessage s of None \<Rightarrow> [] | Some d \<Rightarrow> [WelcomeMessage])
   \<and> (sessionId (startNewChat r s) \<noteq> sessionId s) = (generateSessionId r \<noteq> sessionId s)"
  by (simp add: startNewChat_def generateSessionId_def showToast_def Let_def split: option.split)

subsection \<open>Loading a session\<close>

text \<open>
  C3. When the server answers with an error status and a JSON body that has no messages
  (a 404 with \<open>{"detail": "Not Found"}\<close>), \<open>loadSession\<close> leaves the whole state as it
  was and shows no notice. When the request fails or the body cannot be read, the state is
  as it was but for the error toast.
\<close>

theorem loadSession_failure:
  "loadSession_resume B now i (SessionResponse False (Body None)) s = s
   \<and> loadSession_resume B now i SessionFetchError s
       = s\<lparr>toasts := toasts s @ [(''Error loading chat'', ''error'')]\<rparr>
   \<and> loadSession_resume B now i (SessionResponse ok (BodyError m)) s
       = s\<lparr>toasts := toasts s @ [(''Error loading chat'', ''error'')]\<rparr>"
  by (simp add: loadSession_resume_def loadSession_try_def showToast_def)

subsection \<open>Restoring a backup\<close>

text \<open>
  C7. A backup object without a version (or with an empty one) or without a configuration
  is rejected: the toast \<open>Invalid backup file\<close> is shown and the state is otherwise the one
  before, so the settings, the session identifier, the message log and local storage are
  unchanged and no reload is scheduled. The same holds for a parsed value that is no
  object; for a file that is not JSON, and for \<open>null\<close>, the toast is
  \<open>Error reading backup file\<close>.
\<close>

theorem restore_rejected:
  "(b_version b = None \<or> b_version b = Some [] \<or> b_config b = None \<longrightarrow>
      restoreFile_onload (ParsedObject b) s
        = s\<lparr>toasts := toasts s @ [(''Invalid backup file'', ''error'')]\<rparr>)
   \<and> restoreFile_onload ParsedOther s
       = s\<lparr>toasts := toasts s @ [(''Invalid backup file'', ''error'')]\<rparr>
   \<and> restoreFile_onload SyntaxError s
       = s\<lparr>toasts := toasts s @ [(''Error reading backup file'', ''error'')]\<rparr>
   \<and> restoreFile_onload ParsedNull s
       = s\<lparr>toasts := toasts s @ [(''Error reading backup file'', ''error'')]\<rparr>"
  by (auto simp: restoreFile_onload_def showToast_def split: option.split)

theorem restore_rejected_witness:
  "b_version \<lparr>b_version = None, b_config = Some (example_config\<lparr>theme := ''light''\<rparr>),
             b_state = Some \<lparr>saved_sessionId = ''session_old'', saved_messages = None\<rparr>,
             b_localStorage = Some [(''theme'', ''light'')]\<rparr> = None
   \<and> restoreFile_onload
        (ParsedObject \<lparr>b_version = None, b_config = Some (example_config\<lparr>theme := ''light''\<rparr>),
             b_state = Some \<lparr>saved_sessionId = ''session_old'', saved_messages = None\<rparr>,
             b_localStorage = Some [(''theme'', ''light'')]\<rparr>) example_state
       = example_state\<lparr>toasts := toasts example_state @ [(''Invalid backup file'', ''error'')]\<rparr>"
  using restore_rejected [of "\<lparr>b_version = None, b_config = Some (example_config\<lparr>theme := ''light''\<rparr>),
             b_state = Some \<lparr>saved_sessionId = ''session_old'', saved_messages = None\<rparr>,
             b_localStorage = Some [(''theme'', ''light'')]\<rparr>" example_state]
  by simp

subsection \<open>Export\<close>

lemma foldl_append_blocks:
  "(\<And>acc m. f acc m = acc @ block m) \<Longrightarrow> foldl f acc msgs = acc @ concat (map block msgs)"
  by (induction msgs arbitrary: acc) simp_all

text \<open>
  C5. The Markdown export is its header (the export of the empty log) followed by every
  message of the log once, in order: the role's label, the content, a rule. The plain-text
  export is its header followed by every message once, in order: the time and the role's
  label, the content, then the short reasoning where the message has one, and a rule.
  The Markdown handler offers that text for download; \<open>exportChat\<close> does so when the log
  is not empty.
\<close>

theorem export_complete:
  "exportMd_content B now msgs =
     exportMd_content B now []
       @ every_message_once
           (\<lambda>m. (if role m = ''user'' then ''**You**'' else ''**AI**'') @ '':\<newline>\<newline>'')
           (\<lambda>m. ''\<newline>\<newline>---\<newline>\<newline>'') msgs
   \<and> exportChat_content B now msgs =
       exportChat_content B now []
         @ every_message_once
             (\<lambda>m. ''['' @ formatTime B (timestamp m) @ ''] ''
                    @ (if role m = ''user'' then ''You'' else ''AI'') @ '':\<newline>'')
             (\<lambda>m. ''\<newline>''
                    @ (case reasoning m of
                         None \<Rightarrow> []
                       | Some r \<Rightarrow> ''\<newline>Reasoning: '' @ short r @ ''\<newline>'')
                    @ ''\<newline>'' @ replicate 30 (CHR ''-'') @ ''\<newline>\<newline>'') msgs
   \<and> downloads (exportMd_click B now s) =
       downloads s @ [(''text/markdown'', ''chat-export-'' @ string_of_nat now @ ''.md'',
                       exportMd_content B now (messages s))]
   \<and> (messages s \<noteq> [] \<longrightarrow>
        downloads (exportChat B now s) =
          downloads s @ [(''text/plain'', ''chat-export-'' @ string_of_nat now @ ''.txt'',
                          exportChat_content B now (messages s))])"
proof (intro conjI impI)
  have "\<And>acc m. exportMd_line acc m =
      acc @ ((if role m = ''user'' then ''**You**'' else ''**AI**'') @ '':\<newline>\<newline>''
               @ content m @ ''\<newline>\<newline>---\<newline>\<newline>'')"
    by (simp add: exportMd_line_def)
  from foldl_append_blocks [of exportMd_line, OF this]
  show "exportMd_content B now msgs =
     exportMd_content B now []
       @ every_message_once
           (\<lambda>m. (if role m = ''user'' then ''**You**'' else ''**AI**'') @ '':\<newline>\<newline>'')
           (\<lambda>m. ''\<newline>\<newline>---\<newline>\<newline>'') msgs"
    by (simp add: exportMd_content_def every_message_once_def)
  have "\<And>acc m. exportChat_line B acc m =
      acc @ (''['' @ formatTime B (timestamp m) @ ''] ''
               @ (if role m = ''user'' then ''You'' else ''AI'') @ '':\<newline>'' @ content m
               @ ''\<newline>''
               @ (case reasoning m of
                    None \<Rightarrow> []
                  | Some r \<Rightarrow> ''\<newline>Reasoning: '' @ short r @ ''\<newline>'')
               @ ''\<newline>'' @ replicate 30 (CHR ''-'') @ ''\<newline>\<newline>'')"
    by (simp add: exportChat_line_def Let_def split: option.split)
  from foldl_append_blocks [of "exportChat_line B", OF this]
  show "exportChat_content B now msgs =
       exportChat_content B now []
         @ every_message_once
             (\<lambda>m. ''['' @ formatTime B (timestamp m) @ ''] ''
                    @ (if role m = ''user'' then ''You'' else ''AI'') @ '':\<newline>'')
             (\<lambda>m. ''\<newline>''
                    @ (case reasoning m of
                         None \<Rightarrow> []
                       | Some r \<Rightarrow> ''\<newline>Reasoning: '' @ short r @ ''\<newline>'')
                    @ ''\<newline>'' @ replicate 30 (CHR ''-'') @ ''\<newline>\<newline>'') msgs"
    by (simp add: exportChat_content_def every_message_once_def)
  show "downloads (exportMd_click B now s) =
       downloads s @ [(''text/markdown'', ''chat-export-'' @ string_of_nat now @ ''.md'',
                       exportMd_content B now (messages s))]"
    by (simp add: exportMd_click_def showToast_def Let_def)
  show "downloads (exportChat B now s) =
          downloads s @ [(''text/plain'', ''chat-export-'' @ string_of_nat now @ ''.txt'',
                          exportChat_content B now (messages s))]"
    if "messages s \<noteq> []"
    using that by (simp add: exportChat_def showToast_def Let_def)
qed

theorem export_complete_witness:
  "messages (example_state\<lparr>messages :=
       [\<lparr>role = ''user'', content = ''hi'', reasoning = None, imageUrl = None, timestamp = 3\<rparr>,
        \<lparr>role = ''bot'', content = ''yo'', reasoning = Some \<lparr>short = ''greet'', full = ''long''\<rparr>,
          imageUrl = None, timestamp = 4\<rparr>]\<rparr>) \<noteq> []
   \<and> map (\<lambda>(t, n, c). (t, c)) (downloads (exportChat example_browser 7 (example_state\<lparr>messages :=
       [\<lparr>role = ''user'', content = ''hi'', reasoning = None, imageUrl = None, timestamp = 3\<rparr>,
        \<lparr>role = ''bot'', content = ''yo'', reasoning = Some \<lparr>short = ''greet'', full = ''long''\<rparr>,
          imageUrl = None, timestamp = 4\<rparr>]\<rparr>)))
       = [(''text/plain'',
           ''Nao AI - Chat Export\<newline>Generated: 1/1/2026, 12:00:00 PM\<newline>==================================================\<newline>\<newline>[12:00 PM] You:\<newline>hi\<newline>\<newline>------------------------------\<newline>\<newline>[12:00 PM] AI:\<newline>yo\<newline>\<newline>Reasoning: greet\<newline>\<newline>------------------------------\<newline>\<newline>'')]"
proof -
  let ?s = "example_state\<lparr>messages :=
       [\<lparr>role = ''user'', content = ''hi'', reasoning = None, imageUrl = None, timestamp = 3\<rparr>,
        \<lparr>role = ''bot'', content = ''yo'', reasoning = Some \<lparr>short = ''greet'', full = ''long''\<rparr>,
          imageUrl = None, timestamp = 4\<rparr>]\<rparr>"
  have n: "messages ?s \<noteq> []" by simp
  have d: "downloads ?s = []" by (simp add: example_state_def)
  have m: "messages ?s =
       [\<lparr>role = ''user'', content = ''hi'', reasoning = None, imageUrl = None, timestamp = 3\<rparr>,
        \<lparr>role = ''bot'', content = ''yo'', reasoning = Some \<lparr>short = ''greet'', full = ''long''\<rparr>,
          imageUrl = None, timestamp = 4\<rparr>]"
    by simp
  have c: "exportChat_content example_browser 7 (messages ?s) =
      ''Nao AI - Chat Export\<newline>Generated: 1/1/2026, 12:00:00 PM\<newline>==================================================\<newline>\<newline>[12:00 PM] You:\<newline>hi\<newline>\<newline>------------------------------\<newline>\<newline>[12:00 PM] AI:\<newline>yo\<newline>\<newline>Reasoning: greet\<newline>\<newline>------------------------------\<newline>\<newline>''"
    unfolding m by code_simp
  from export_complete [of example_browser 7 "messages ?s" ?s] n
  have "downloads (exportChat example_browser 7 ?s) =
      downloads ?s @ [(''text/plain'', ''chat-export-'' @ string_of_nat 7 @ ''.txt'',
                       exportChat_content example_browser 7 (messages ?s))]"
    by blast
  then show ?thesis using n unfolding c d by simp
qed

subsection \<open>Loading the settings\<close>

lemma parseFloat_null: "parseFloat ''null'' = NaN"
  by code_simp

lemma stored_zero_temperature:
  "temperature (fst (initCONFIG [''temperature'' \<mapsto> ''0''])) = Dec 7 (- 1)"
  by code_simp

text \<open>
  C6, as the claim states it, fails: a stored endpoint is not always kept. The script
  replaces the old default endpoint by the local one right after it has built \<open>CONFIG\<close>.
\<close>

theorem legacy_endpoint_replaced:
  "apiEndpoint (fst (initCONFIG [''apiEndpoint'' \<mapsto> ''https://nao-ai.onrender.com/'']))
     \<noteq> ''https://nao-ai.onrender.com/''"
  by (simp add: initCONFIG_def migrateEndpoint_def loadCONFIG_def or_default_def)

text \<open>
  C6, amended. Each setting is read from its own key. A missing or empty endpoint, model
  or theme gives that field's default, and any other stored text is kept as it is, except
  that the old default endpoint \<open>https://nao-ai.onrender.com/\<close> becomes the local
  endpoint, in the settings and in local storage. The voice flag is set exactly when the
  stored text is \<open>true\<close>. The temperature is the default 0.7 when nothing is stored or
  the stored text does not start with a number, and is the number parsed from the stored
  text when that number is truthy.
\<close>

theorem settings_loading:
  "(ls ''apiEndpoint'' = None \<or> ls ''apiEndpoint'' = Some [] \<longrightarrow>
      apiEndpoint (fst (initCONFIG ls)) = ''http://localhost:8000'')
   \<and> (ls ''apiEndpoint'' = Some e \<and> e \<noteq> [] \<and> e \<noteq> ''https://nao-ai.onrender.com/'' \<longrightarrow>
      apiEndpoint (fst (initCONFIG ls)) = e \<and> snd (initCONFIG ls) = ls)
   \<and> (ls ''apiEndpoint'' = Some ''https://nao-ai.onrender.com/'' \<longrightarrow>
      apiEndpoint (fst (initCONFIG ls)) = ''http://localhost:8000''
      \<and> snd (initCONFIG ls) = ls(''apiEndpoint'' \<mapsto> ''http://localhost:8000''))
   \<and> (ls ''model'' = None \<or> ls ''model'' = Some [] \<longrightarrow>
      model (fst (initCONFIG ls)) = ''deepseek/deepseek-chat'')
   \<and> (ls ''model'' = Some m \<and> m \<noteq> [] \<longrightarrow> model (fst (initCONFIG ls)) = m)
   \<and> (ls ''theme'' = None \<or> ls ''theme'' = Some [] \<longrightarrow> theme (fst (initCONFIG ls)) = ''dark'')
   \<and> (ls ''theme'' = Some th \<and> th \<noteq> [] \<longrightarrow> theme (fst (initCONFIG ls)) = th)
   \<and> voiceOutput (fst (initCONFIG ls)) = (ls ''voiceOutput'' = Some ''true'')
   \<and> (ls ''temperature'' = None \<longrightarrow> temperature (fst (initCONFIG ls)) = Dec 7 (- 1))
   \<and> (ls ''temperature'' = Some t \<and> parseFloat t = NaN \<longrightarrow>
      temperature (fst (initCONFIG ls)) = Dec 7 (- 1))
   \<and> (ls ''temperature'' = Some t \<and> num_truthy (parseFloat t) \<longrightarrow>
      temperature (fst (initCONFIG ls)) = parseFloat t)"
proof -
  have f: "fst (initCONFIG ls) =
      (loadCONFIG ls)\<lparr>apiEndpoint :=
         (if apiEndpoint (loadCONFIG ls) = ''https://nao-ai.onrender.com/''
          then ''http://localhost:8000'' else apiEndpoint (loadCONFIG ls))\<rparr>"
    by (simp add: initCONFIG_def migrateEndpoint_def)
  have s: "snd (initCONFIG ls) =
      (if apiEndpoint (loadCONFIG ls) = ''https://nao-ai.onrender.com/''
       then ls(''apiEndpoint'' \<mapsto> ''http://localhost:8000'') else ls)"
    by (simp add: initCONFIG_def migrateEndpoint_def)
  have n: "\<not> num_truthy NaN" by (simp add: num_truthy_def)
  show ?thesis
    unfolding f s
    by (simp add: loadCONFIG_def or_default_def template_def parseFloat_null n Let_def)
qed

theorem settings_loading_witness:
  "fst (initCONFIG [''apiEndpoint'' \<mapsto> ''https://example.org'', ''temperature'' \<mapsto> ''1.2'',
                    ''voiceOutput'' \<mapsto> ''true''])
     = \<lparr>apiEndpoint = ''https://example.org'', model = ''deepseek/deepseek-chat'',
        temperature = Dec 12 (- 1), voiceOutput = True, theme = ''dark''\<rparr>
   \<and> snd (initCONFIG [''apiEndpoint'' \<mapsto> ''https://nao-ai.onrender.com/'']) ''apiEndpoint''
     = Some ''http://localhost:8000''"
proof -
  let ?ls = "[''apiEndpoint'' \<mapsto> ''https://example.org'', ''temperature'' \<mapsto> ''1.2'',
              ''voiceOutput'' \<mapsto> ''true'']"
  have p: "parseFloat ''1.2'' = Dec 12 (- 1)" by code_simp
  have t: "num_truthy (Dec 12 (- 1))" by code_simp
  from settings_loading [of ?ls "''https://example.org''" "''x''" "''x''" "''1.2''"]
  have "apiEndpoint (fst (initCONFIG ?ls)) = ''https://example.org''"
    and "model (fst (initCONFIG ?ls)) = ''deepseek/deepseek-chat''"
    and "theme (fst (initCONFIG ?ls)) = ''dark''"
    and "voiceOutput (fst (initCONFIG ?ls))"
    and "temperature (fst (initCONFIG ?ls)) = Dec 12 (- 1)"
    by (simp_all add: p t)
  then have "fst (initCONFIG ?ls)
     = \<lparr>apiEndpoint = ''https://example.org'', model = ''deepseek/deepseek-chat'',
        temperature = Dec 12 (- 1), voiceOutput = True, theme = ''dark''\<rparr>"
    by (cases "fst (initCONFIG ?ls)") simp
  moreover
  from settings_loading [of "[''apiEndpoint'' \<mapsto> ''https://nao-ai.onrender.com/'']"]
  have "snd (initCONFIG [''apiEndpoint'' \<mapsto> ''https://nao-ai.onrender.com/'']) ''apiEndpoint''
     = Some ''http://localhost:8000''"
    by simp
  ultimately show ?thesis by blast
qed

subsection \<open>Formatting keeps to the formatter's markup\<close>




































end
